theory Spec2Isabelle
  imports Complex_Main
begin

section \<open>Clean-Up-My-Download: records, history store and triage\<close>

text \<open>
  A shallow embedding of \<^verbatim>\<open>CleanUpMyDownloadsWin.py\<close>.

  Time. A Python float holding a POSIX timestamp is a rational number of seconds. A naive
  \<^verbatim>\<open>datetime\<close> is an integer: the microseconds of local wall-clock time since
  1970-01-01 00:00:00; \<^verbatim>\<open>timedelta(days=d)\<close> is \<open>d * 86400000000\<close> microseconds, and
  datetimes are compared and added exactly, as Python does.

  The clock. Every \<^verbatim>\<open>datetime.now()\<close> is one reading of the system clock: a clock
  \<open>clk\<close> gives the datetime \<open>clk t\<close> returned by the \<open>t\<close>-th call, and the functions that
  read the clock take the number of the next reading and return the number after their
  last one.

  Errors. An exception is a value of type \<open>error\<close>. No function of the program catches
  one, so the first exception ends the run; what was done before it stays done.
\<close>

subsection \<open>Module constants\<close>

type_synonym pyfloat = rat
type_synonym datetime = int
type_synonym clock = "nat \<Rightarrow> datetime"

datatype error =
  KeyError | ValueError | TypeError | OverflowError | OSError | FileNotFoundError

definition IMPORTANCE_THRESHOLD :: int where
  "IMPORTANCE_THRESHOLD = 3"

definition TIME_LIMIT_IN_DAYS :: int where
  "TIME_LIMIT_IN_DAYS = 30"

definition ARCHIVE_PATH :: string where
  "ARCHIVE_PATH = ''D:'' @ [CHR 0x5C] @ ''Archives''"

subsection \<open>The platform\<close>

text \<open>
  What the operating system and \<^verbatim>\<open>pathlib\<close> contribute is a parameter of the model:
  \<^item> \<open>utcoffset s\<close> is the offset of local time from UTC, in seconds, that the platform's
    \<^verbatim>\<open>localtime\<close> gives for the POSIX second \<open>s\<close>, and \<open>None\<close> where \<^verbatim>\<open>localtime\<close> fails;
  \<^item> \<open>stat p\<close> is the result of \<^verbatim>\<open>Path(p).stat()\<close>, or the exception it raises;
  \<^item> \<open>joinpath folder e\<close> is \<^verbatim>\<open>str(Path(folder).joinpath(e))\<close> and \<open>path_name s\<close> is
    \<^verbatim>\<open>Path(s).name\<close>;
  \<^item> \<open>dated_dir_exists d\<close> tells whether the directory \<^verbatim>\<open>f"{ARCHIVE_PATH}/{d}"\<close> exists,
    for the text of the datetime \<open>d\<close>. The program creates no directory, so this does not
    change during a run;
  \<^item> \<open>send2trash p\<close> is the exception that \<^verbatim>\<open>send2trash(Path(p))\<close> raises, if any.
\<close>

record stat_result =
  st_birthtime :: pyfloat
  st_atime :: pyfloat

record platform =
  utcoffset :: "int \<Rightarrow> int option"
  stat :: "string \<Rightarrow> error + stat_result"
  joinpath :: "string \<Rightarrow> string \<Rightarrow> string"
  path_name :: "string \<Rightarrow> string"
  dated_dir_exists :: "datetime \<Rightarrow> bool"
  send2trash :: "string \<Rightarrow> error option"

subsection \<open>Datetimes\<close>

text \<open>
  \<^verbatim>\<open>datetime.fromtimestamp(x)\<close> rounds \<open>x\<close> to the nearest microsecond, ties to even,
  converts the second it falls in to local time, and raises when \<^verbatim>\<open>localtime\<close> fails or
  the result is outside the years 1 to 9999. The product of \<open>x\<close> and \<open>10\<^sup>6\<close> is taken
  exactly. Adding a \<^verbatim>\<open>timedelta\<close> raises \<^verbatim>\<open>OverflowError\<close> beyond the year 9999.
\<close>

definition datetime_min :: datetime where
  "datetime_min = - 62135596800000000"

definition datetime_max :: datetime where
  "datetime_max = 253402300799999999"

definition round_half_even :: "rat \<Rightarrow> int" where
  "round_half_even y =
     (let f = \<lfloor>y\<rfloor>; r = y - of_int f
      in if r < 1 / 2 then f else if r > 1 / 2 then f + 1 else if even f then f else f + 1)"

definition fromtimestamp :: "platform \<Rightarrow> pyfloat \<Rightarrow> error + datetime" where
  "fromtimestamp P x =
     (let us = round_half_even (x * 1000000)
      in case utcoffset P (us div 1000000) of
           None \<Rightarrow> Inl OSError
         | Some off \<Rightarrow>
             (let local = us + off * 1000000
              in if datetime_min \<le> local \<and> local \<le> datetime_max then Inr local
                 else Inl ValueError))"

definition timedelta_days :: "int \<Rightarrow> int" where
  "timedelta_days d = d * 86400000000"

subsection \<open>EntityData\<close>

record EntityData =
  path :: string
  birthdate :: pyfloat
  last_access :: pyfloat
  importance_level :: int

text \<open>
  The property \<^verbatim>\<open>is_deprecated\<close> reads the clock when it is queried; \<open>dt\<close> is that
  reading.
\<close>

definition is_deprecated :: "platform \<Rightarrow> datetime \<Rightarrow> EntityData \<Rightarrow> error + bool" where
  "is_deprecated P dt e =
     (case fromtimestamp P (last_access e) of
        Inl err \<Rightarrow> Inl err
      | Inr d \<Rightarrow>
          (let dt_plus_limit = d + timedelta_days TIME_LIMIT_IN_DAYS
           in if dt_plus_limit > datetime_max then Inl OverflowError
              else Inr (dt > dt_plus_limit)))"

definition is_important :: "EntityData \<Rightarrow> bool" where
  "is_important e = (importance_level e \<ge> IMPORTANCE_THRESHOLD)"

subsection \<open>Memory, extract_data and update_data\<close>

record Memory =
  store_path :: string
  last_metadata :: "string \<rightharpoonup> EntityData"

text \<open>
  \<^verbatim>\<open>extract_data\<close>: the entity's path as a string and the result of \<^verbatim>\<open>entity.stat()\<close>
  are the inputs (the call of \<open>stat\<close>, which can raise, is in \<open>browse_step\<close>, and the two
  calls that the source makes for one entity are one call there); the
  constructor's conversions are the identity on a path, two floats and the integer 0
  (lemma \<open>EntityData_init_native\<close> below).
\<close>

definition extract_data :: "string \<Rightarrow> stat_result \<Rightarrow> EntityData" where
  "extract_data entity st =
     \<lparr>path = entity, birthdate = st_birthtime st, last_access = st_atime st,
      importance_level = 0\<rparr>"

text \<open>
  \<^verbatim>\<open>update_data\<close> mutates \<open>data\<close> in place; the model returns the record after the
  call.
\<close>

definition update_data :: "EntityData \<Rightarrow> Memory \<Rightarrow> EntityData" where
  "update_data data db =
     (case last_metadata db (path data) of
        None \<Rightarrow> data
      | Some last_record \<Rightarrow>
          (let old_last_access = last_access last_record;
               new_last_access = last_access data
           in if new_last_access > old_last_access
              then data\<lparr>importance_level := importance_level last_record + 1\<rparr>
              else data))"

subsection \<open>Python values and the library's conversions\<close>

text \<open>
  The constructor of \<^verbatim>\<open>EntityData\<close> converts its arguments with \<^verbatim>\<open>str\<close>, \<^verbatim>\<open>float\<close>
  and \<^verbatim>\<open>int\<close>; it receives strings (or \<^verbatim>\<open>None\<close>) from the CSV reader and native
  values from \<^verbatim>\<open>extract_data\<close>. The text formats of numbers belong to Python, not to
  this program: \<open>float_of_str\<close> and \<open>int_of_str\<close> are \<^verbatim>\<open>float(s)\<close> and \<^verbatim>\<open>int(s)\<close> on
  a string (\<open>None\<close> where Python raises \<^verbatim>\<open>ValueError\<close>), \<open>str_of_float\<close> and
  \<open>str_of_int\<close> are \<^verbatim>\<open>str\<close> on a float and on an int, and \<open>float_of_int\<close> is
  \<^verbatim>\<open>float(n)\<close> on an int (\<open>None\<close> where Python raises \<^verbatim>\<open>OverflowError\<close>).
\<close>

datatype pyval = PStr string | PFloat pyfloat | PInt int | PNone

record pylib =
  float_of_str :: "string \<Rightarrow> pyfloat option"
  int_of_str :: "string \<Rightarrow> int option"
  str_of_float :: "pyfloat \<Rightarrow> string"
  str_of_int :: "int \<Rightarrow> string"
  float_of_int :: "int \<Rightarrow> pyfloat option"

fun py_str :: "pylib \<Rightarrow> pyval \<Rightarrow> string" where
  "py_str L (PStr s) = s"
| "py_str L (PFloat x) = str_of_float L x"
| "py_str L (PInt n) = str_of_int L n"
| "py_str L PNone = ''None''"

fun py_float :: "pylib \<Rightarrow> pyval \<Rightarrow> error + pyfloat" where
  "py_float L (PStr s) = (case float_of_str L s of None \<Rightarrow> Inl ValueError | Some x \<Rightarrow> Inr x)"
| "py_float L (PFloat x) = Inr x"
| "py_float L (PInt n) = (case float_of_int L n of None \<Rightarrow> Inl OverflowError | Some x \<Rightarrow> Inr x)"
| "py_float L PNone = Inl TypeError"

fun py_int :: "pylib \<Rightarrow> pyval \<Rightarrow> error + int" where
  "py_int L (PStr s) = (case int_of_str L s of None \<Rightarrow> Inl ValueError | Some n \<Rightarrow> Inr n)"
| "py_int L (PFloat x) = Inr (if x \<ge> 0 then \<lfloor>x\<rfloor> else \<lceil>x\<rceil>)"
| "py_int L (PInt n) = Inr n"
| "py_int L PNone = Inl TypeError"

text \<open>\<^verbatim>\<open>EntityData.__init__\<close>: the four conversions in the order of the source.\<close>

definition EntityData_init :: "pylib \<Rightarrow> pyval \<Rightarrow> pyval \<Rightarrow> pyval \<Rightarrow> pyval \<Rightarrow> error + EntityData" where
  "EntityData_init L p b a i =
     (case py_float L b of Inl err \<Rightarrow> Inl err | Inr b' \<Rightarrow>
     (case py_float L a of Inl err \<Rightarrow> Inl err | Inr a' \<Rightarrow>
     (case py_int L i of Inl err \<Rightarrow> Inl err | Inr i' \<Rightarrow>
        Inr \<lparr>path = py_str L p, birthdate = b', last_access = a', importance_level = i'\<rparr>)))"

subsection \<open>The CSV file\<close>

text \<open>
  The file is modelled as what \<^verbatim>\<open>csv.reader\<close> yields and \<^verbatim>\<open>csv.writer\<close> is given: a
  list of rows, each a list of strings, the header row first; quoting is the csv
  module's. \<^verbatim>\<open>csv.DictReader\<close> takes the first row as the field names, skips empty rows
  and turns every other row into a dictionary: a later duplicate field name wins, and a
  field name beyond the end of a short row maps to \<^verbatim>\<open>None\<close>.
\<close>

type_synonym csv_file = "string list list"

definition row_dict :: "string list \<Rightarrow> string list \<Rightarrow> (string \<rightharpoonup> pyval)" where
  "row_dict fieldnames row =
     (let d = fold (\<lambda>(k, v) d. d(k \<mapsto> PStr v)) (zip fieldnames row) Map.empty
      in fold (\<lambda>k d. d(k \<mapsto> PNone)) (drop (length row) fieldnames) d)"

fun DictReader :: "csv_file \<Rightarrow> (string \<rightharpoonup> pyval) list" where
  "DictReader [] = []"
| "DictReader (fieldnames # rows) = map (row_dict fieldnames) (filter (\<lambda>row. row \<noteq> []) rows)"

definition getitem :: "(string \<rightharpoonup> pyval) \<Rightarrow> string \<Rightarrow> error + pyval" where
  "getitem d k = (case d k of None \<Rightarrow> Inl KeyError | Some v \<Rightarrow> Inr v)"

text \<open>
  The loop of \<^verbatim>\<open>load_last_metadata\<close>. The dictionary \<open>metadata\<close> is modelled on its
  string keys: a row whose \<open>path\<close> cell is \<^verbatim>\<open>None\<close> is stored by Python under the key
  \<^verbatim>\<open>None\<close>, which no lookup by a path string finds.
\<close>

definition store_entity :: "(string \<rightharpoonup> EntityData) \<Rightarrow> pyval \<Rightarrow> EntityData \<Rightarrow> (string \<rightharpoonup> EntityData)" where
  "store_entity metadata p entity = (case p of PStr s \<Rightarrow> metadata(s \<mapsto> entity) | _ \<Rightarrow> metadata)"

fun load_rows :: "pylib \<Rightarrow> (string \<rightharpoonup> pyval) list \<Rightarrow> (string \<rightharpoonup> EntityData) \<Rightarrow>
    error + (string \<rightharpoonup> EntityData)" where
  "load_rows L [] metadata = Inr metadata"
| "load_rows L (data # rest) metadata =
     (case getitem data ''path'' of Inl err \<Rightarrow> Inl err | Inr p \<Rightarrow>
     (case getitem data ''birthdate'' of Inl err \<Rightarrow> Inl err | Inr b \<Rightarrow>
     (case getitem data ''last_access'' of Inl err \<Rightarrow> Inl err | Inr a \<Rightarrow>
     (case getitem data ''importance_level'' of Inl err \<Rightarrow> Inl err | Inr i \<Rightarrow>
     (case EntityData_init L p b a i of Inl err \<Rightarrow> Inl err | Inr entity \<Rightarrow>
        load_rows L rest (store_entity metadata p entity))))))"

definition load_last_metadata :: "pylib \<Rightarrow> csv_file \<Rightarrow> error + (string \<rightharpoonup> EntityData)" where
  "load_last_metadata L db = load_rows L (DictReader db) Map.empty"

definition Memory_init :: "pylib \<Rightarrow> string \<Rightarrow> csv_file \<Rightarrow> error + Memory" where
  "Memory_init L p db =
     (case load_last_metadata L db of Inl err \<Rightarrow> Inl err
      | Inr m \<Rightarrow> Inr \<lparr>store_path = p, last_metadata = m\<rparr>)"

text \<open>
  \<^verbatim>\<open>Memory.update\<close>. \<^verbatim>\<open>csv.writer.writerow\<close> writes a string as it is, \<^verbatim>\<open>None\<close> as the
  empty string and any other value through \<^verbatim>\<open>str\<close>. The loop reads the clock once for
  every entity, in \<^verbatim>\<open>is_deprecated\<close>, and ends at the first exception. The file is
  opened in mode \<^verbatim>\<open>"w"\<close>: its old content \<open>old\<close> is discarded, and the rows written
  before an exception stay in the file. The result is the outcome (the exception, or the
  number of the next clock reading) and the content of the file.
\<close>

definition writerow :: "pylib \<Rightarrow> pyval list \<Rightarrow> string list" where
  "writerow L cells = map (\<lambda>v. case v of PNone \<Rightarrow> [] | _ \<Rightarrow> py_str L v) cells"

definition entity_row :: "pylib \<Rightarrow> EntityData \<Rightarrow> string list" where
  "entity_row L entity =
     writerow L [PStr (path entity), PFloat (birthdate entity), PFloat (last_access entity),
                 PInt (importance_level entity)]"

definition header_row :: "pylib \<Rightarrow> string list" where
  "header_row L =
     writerow L [PStr ''path'', PStr ''birthdate'', PStr ''last_access'', PStr ''importance_level'']"

fun update_rows :: "pylib \<Rightarrow> platform \<Rightarrow> clock \<Rightarrow> nat \<Rightarrow> EntityData list \<Rightarrow>
    (error + nat) \<times> csv_file" where
  "update_rows L P clk t [] = (Inr t, [])"
| "update_rows L P clk t (entity # rest) =
     (case is_deprecated P (clk t) entity of
        Inl err \<Rightarrow> (Inl err, [])
      | Inr deprecated \<Rightarrow>
          (let (out, rows) = update_rows L P clk (Suc t) rest
           in (out, (if \<not> deprecated then [entity_row L entity] else []) @ rows)))"

definition Memory_update :: "pylib \<Rightarrow> platform \<Rightarrow> clock \<Rightarrow> nat \<Rightarrow> Memory \<Rightarrow> csv_file \<Rightarrow>
    EntityData list \<Rightarrow> (error + nat) \<times> csv_file" where
  "Memory_update L P clk t db old entities =
     (let (out, rows) = update_rows L P clk t entities in (out, header_row L # rows))"

text \<open>
  The entities that are not deprecated at the clock reading that the loop of
  \<^verbatim>\<open>Memory.update\<close> takes for them: the entities whose rows a write that completes has
  written (lemma \<open>update_rows_written\<close>).
\<close>

fun written :: "platform \<Rightarrow> clock \<Rightarrow> nat \<Rightarrow> EntityData list \<Rightarrow> EntityData list" where
  "written P clk t [] = []"
| "written P clk t (entity # rest) =
     (if is_deprecated P (clk t) entity = Inr False then [entity] else [])
     @ written P clk (Suc t) rest"

subsection \<open>Archiving, deleting and the run\<close>

text \<open>
  The renames and the moves to the trash that succeed are the actions of the run.
  \<^verbatim>\<open>src.rename(dst)\<close> with
  \<^verbatim>\<open>dst = Path(f"{ARCHIVE_PATH}/{datetime.now()}").joinpath(src.name)\<close> is recorded with
  the three ingredients of \<open>dst\<close>: the archive root, the clock reading whose text names
  the dated directory, and the final name. \<^verbatim>\<open>Path.rename\<close> creates no directory: it
  raises \<^verbatim>\<open>FileNotFoundError\<close> when the dated directory does not exist.
\<close>

record archive_dst =
  dst_root :: string
  dst_stamp :: datetime
  dst_name :: string

datatype action = Rename string archive_dst | Trash string

definition archive_data :: "platform \<Rightarrow> clock \<Rightarrow> nat \<Rightarrow> EntityData \<Rightarrow> nat \<times> (error + action)" where
  "archive_data P clk t entity =
     (let src = path entity;
          dst = \<lparr>dst_root = ARCHIVE_PATH, dst_stamp = clk t, dst_name = path_name P src\<rparr>
      in if dated_dir_exists P (dst_stamp dst) then (Suc t, Inr (Rename src dst))
         else (Suc t, Inl FileNotFoundError))"

definition delete_data :: "platform \<Rightarrow> EntityData \<Rightarrow> error + action" where
  "delete_data P entity =
     (let src = path entity
      in case send2trash P src of Some err \<Rightarrow> Inl err | None \<Rightarrow> Inr (Trash src))"

text \<open>
  The body of the loop of \<^verbatim>\<open>browse_files\<close> for one entity: the number of the next
  clock reading and either the exception raised or the record after \<^verbatim>\<open>update_data\<close>
  with the actions performed for it. \<^verbatim>\<open>is_deprecated\<close> reads the clock, and
  \<^verbatim>\<open>archive_data\<close> reads it again.
\<close>

definition browse_step :: "platform \<Rightarrow> clock \<Rightarrow> Memory \<Rightarrow> nat \<Rightarrow> string \<Rightarrow>
    nat \<times> (error + EntityData \<times> action list)" where
  "browse_step P clk db t p =
     (case stat P p of
        Inl err \<Rightarrow> (t, Inl err)
      | Inr st \<Rightarrow>
          (let entity = update_data (extract_data p st) db
           in case is_deprecated P (clk t) entity of
                Inl err \<Rightarrow> (Suc t, Inl err)
              | Inr deprecated \<Rightarrow>
                  if deprecated
                  then (if is_important entity
                        then (case archive_data P clk (Suc t) entity of
                                (t', Inl err) \<Rightarrow> (t', Inl err)
                              | (t', Inr act) \<Rightarrow> (t', Inr (entity, [act])))
                        else (case delete_data P entity of
                                Inl err \<Rightarrow> (Suc t, Inl err)
                              | Inr act \<Rightarrow> (Suc t, Inr (entity, [act]))))
                  else (Suc t, Inr (entity, []))))"

text \<open>
  The loop: the outcome and, for every entity processed before an exception, its record
  (the list \<open>entities_metadata\<close>) and the actions performed for it.
\<close>

fun browse_loop :: "platform \<Rightarrow> clock \<Rightarrow> Memory \<Rightarrow> nat \<Rightarrow> string list \<Rightarrow>
    (error + nat) \<times> (EntityData \<times> action list) list" where
  "browse_loop P clk db t [] = (Inr t, [])"
| "browse_loop P clk db t (p # ps) =
     (case browse_step P clk db t p of
        (t1, Inl err) \<Rightarrow> (Inl err, [])
      | (t1, Inr (entity, acts)) \<Rightarrow>
          (let (out, rest) = browse_loop P clk db t1 ps
           in (out, (entity, acts) # rest)))"

text \<open>
  \<^verbatim>\<open>browse_files\<close>: \<open>dirs\<close> and \<open>files\<close> are the names that \<^verbatim>\<open>os.walk\<close> lists under
  the scanned directory \<open>folder\<close>, \<open>db\<close> the content of the CSV file; both are inputs,
  so the scanned directory and the CSV file are taken to exist. The result is the
  sequence of actions performed, the content of the CSV file after the run and the
  outcome: the exception that ended the run, or the number of the next clock reading.
\<close>

definition browse_files :: "pylib \<Rightarrow> platform \<Rightarrow> clock \<Rightarrow> nat \<Rightarrow> string \<Rightarrow> string list \<Rightarrow>
    string list \<Rightarrow> string \<Rightarrow> csv_file \<Rightarrow> action list \<times> csv_file \<times> (error + nat)" where
  "browse_files L P clk t folder dirs files db_path db =
     (case Memory_init L db_path db of
        Inl err \<Rightarrow> ([], db, Inl err)
      | Inr mem \<Rightarrow>
          (let entities = map (joinpath P folder) (dirs @ files);
               (out, entries) = browse_loop P clk mem t entities;
               entities_metadata = map fst entries
           in case out of
                Inl err \<Rightarrow> (concat (map snd entries), db, Inl err)
              | Inr t1 \<Rightarrow>
                  (let (out', db') = Memory_update L P clk t1 mem db entities_metadata
                   in (concat (map snd entries), db', out'))))"

subsection \<open>update_data on an object store\<close>

text \<open>
  Python passes objects by reference: \<open>data\<close> and the values of \<open>db.last_metadata\<close> are
  references into a store of \<^verbatim>\<open>EntityData\<close> objects, and the assignment to
  \<open>data.importance_level\<close> writes the store. The function returns the store and the
  dictionary after the call.
\<close>

type_synonym ref = nat
type_synonym store = "ref \<Rightarrow> EntityData"

definition update_data_store :: "ref \<Rightarrow> (string \<rightharpoonup> ref) \<Rightarrow> store \<Rightarrow> store \<times> (string \<rightharpoonup> ref)" where
  "update_data_store data db h =
     (case db (path (h data)) of
        None \<Rightarrow> (h, db)
      | Some last_record \<Rightarrow>
          (let old_last_access = last_access (h last_record);
               new_last_access = last_access (h data)
           in if new_last_access > old_last_access
              then (h(data := (h data)\<lparr>importance_level := importance_level (h last_record) + 1\<rparr>), db)
              else (h, db)))"

subsection \<open>A library and a platform for the examples\<close>

text \<open>
  The theorems below hold for every choice of the conversions and of the platform. The
  examples evaluate the model with the conversions given on the few literals they use:
  \<^verbatim>\<open>"0.0"\<close>, \<^verbatim>\<open>"100.0"\<close>, \<^verbatim>\<open>"0"\<close>, \<^verbatim>\<open>"2"\<close> and \<^verbatim>\<open>"3"\<close> are read and written as
  Python does, and \<^verbatim>\<open>"abc"\<close> is not a number. Their platform is in the time zone UTC;
  every \<open>stat\<close> succeeds with both times 0 unless the example says otherwise; paths are
  relative, in normal form, with the backslash as separator; no dated directory exists
  under the archive root; and \<^verbatim>\<open>send2trash\<close> succeeds.
\<close>

definition example_lib :: pylib where
  "example_lib =
     \<lparr>float_of_str = [''0.0'' \<mapsto> 0, ''100.0'' \<mapsto> 100],
      int_of_str = [''0'' \<mapsto> 0, ''2'' \<mapsto> 2, ''3'' \<mapsto> 3],
      str_of_float = (\<lambda>x. if x = 100 then ''100.0'' else ''0.0''),
      str_of_int = (\<lambda>n. if n = 2 then ''2'' else if n = 3 then ''3'' else ''0''),
      float_of_int = (\<lambda>n. Some (of_int n))\<rparr>"

definition example_platform :: platform where
  "example_platform =
     \<lparr>utcoffset = (\<lambda>s. Some 0),
      stat = (\<lambda>p. Inr \<lparr>st_birthtime = 0, st_atime = 0\<rparr>),
      joinpath = (\<lambda>folder e. folder @ [CHR 0x5C] @ e),
      path_name = (\<lambda>s. rev (takeWhile (\<lambda>c. c \<noteq> CHR 0x5C) (rev s))),
      dated_dir_exists = (\<lambda>d. False),
      send2trash = (\<lambda>p. None)\<rparr>"

section \<open>Properties of the model\<close>

subsection \<open>Records\<close>

lemma EntityData_init_native:
  "EntityData_init L (PStr p) (PFloat b) (PFloat a) (PInt 0)
     = Inr (extract_data p \<lparr>st_birthtime = b, st_atime = a\<rparr>)"
  by (simp add: EntityData_init_def extract_data_def)

lemma EntityData_eta:
  "\<lparr>path = path e, birthdate = birthdate e, last_access = last_access e,
    importance_level = importance_level e\<rparr> = e"
  by (cases e) simp

subsection \<open>Datetimes\<close>

lemma round_half_even_of_int: "round_half_even (of_int k) = k"
  by (simp add: round_half_even_def)

lemma fromtimestamp_microseconds:
  assumes "x = of_int k / 1000000" and "utcoffset P (k div 1000000) = Some off"
    and "fromtimestamp P x = Inr d"
  shows "d = k + off * 1000000"
proof -
  have "x * 1000000 = of_int k" using assms(1) by simp
  then have "round_half_even (x * 1000000) = k" by (simp add: round_half_even_of_int)
  with assms(2,3) show ?thesis
    by (auto simp: fromtimestamp_def Let_def split: if_splits)
qed

lemma round_half_even_example: "round_half_even (499999998 / 5) = 100000000"
proof -
  have fl: "\<lfloor>(499999998::rat) / 5\<rfloor> = 99999999"
    by (rule floor_unique) simp_all
  show ?thesis
    unfolding round_half_even_def Let_def fl by simp
qed

lemma fromtimestamp_example:
  "fromtimestamp example_platform (249999999 / 2500000) = Inr 100000000"
proof -
  have x: "(249999999::rat) / 2500000 * 1000000 = 499999998 / 5" by simp
  show ?thesis
    unfolding fromtimestamp_def x round_half_even_example
    by (simp add: example_platform_def datetime_min_def datetime_max_def)
qed

subsection \<open>Writing the snapshot\<close>

lemma update_rows_written:
  "update_rows L P clk t entities = (Inr t', rows) \<Longrightarrow>
     rows = map (entity_row L) (written P clk t entities) \<and> t' = t + length entities"
proof (induction entities arbitrary: t t' rows)
  case Nil
  then show ?case by simp
next
  case (Cons e es)
  from Cons.prems obtain b where dep: "is_deprecated P (clk t) e = Inr b"
    by (cases "is_deprecated P (clk t) e") auto
  obtain out rs where rest: "update_rows L P clk (Suc t) es = (out, rs)"
    by (cases "update_rows L P clk (Suc t) es") auto
  from Cons.prems dep rest have out: "out = Inr t'"
    and rows: "rows = (if \<not> b then [entity_row L e] else []) @ rs"
    by simp_all
  from Cons.IH [of "Suc t" t' rs] rest out
  have "rs = map (entity_row L) (written P clk (Suc t) es)" and "t' = Suc t + length es"
    by simp_all
  with rows dep show ?case by simp
qed

lemma written_nth:
  "e \<in> set (written P clk t entities) \<longleftrightarrow>
     (\<exists>i < length entities. e = entities ! i
         \<and> is_deprecated P (clk (t + i)) (entities ! i) = Inr False)"
proof (induction entities arbitrary: t)
  case Nil
  then show ?case by simp
next
  case (Cons x xs)
  have "(\<exists>i < length (x # xs). e = (x # xs) ! i
            \<and> is_deprecated P (clk (t + i)) ((x # xs) ! i) = Inr False)
      \<longleftrightarrow> (e = x \<and> is_deprecated P (clk t) x = Inr False)
          \<or> (\<exists>i < length xs. e = xs ! i \<and> is_deprecated P (clk (Suc t + i)) (xs ! i) = Inr False)"
    by (simp add: less_Suc_eq_0_disj ex_disj_distrib conj_disj_distribR) auto
  then show ?case
    using Cons.IH [of "Suc t"] by auto
qed

lemma header_row_eq:
  "header_row L = [''path'', ''birthdate'', ''last_access'', ''importance_level'']"
  by (simp add: header_row_def writerow_def)

lemma entity_row_eq:
  "entity_row L e = [path e, str_of_float L (birthdate e), str_of_float L (last_access e),
                     str_of_int L (importance_level e)]"
  by (simp add: entity_row_def writerow_def)

lemma row_dict_entity:
  "row_dict (header_row L) (entity_row L e) =
     [''path'' \<mapsto> PStr (path e), ''birthdate'' \<mapsto> PStr (str_of_float L (birthdate e)),
      ''last_access'' \<mapsto> PStr (str_of_float L (last_access e)),
      ''importance_level'' \<mapsto> PStr (str_of_int L (importance_level e))]"
  by (simp add: row_dict_def header_row_eq entity_row_eq)


subsection \<open>Loading the snapshot\<close>

lemma load_rows_malformed_head:
  assumes "(\<exists>s. data ''birthdate'' = Some (PStr s) \<and> float_of_str L s = None)
      \<or> (\<exists>s. data ''last_access'' = Some (PStr s) \<and> float_of_str L s = None)
      \<or> (\<exists>s. data ''importance_level'' = Some (PStr s) \<and> int_of_str L s = None)"
  shows "\<exists>err. load_rows L (data # rest) metadata = Inl err"
  using assms
  by (auto simp: getitem_def EntityData_init_def split: option.splits sum.splits)

lemma load_rows_malformed:
  assumes "data \<in> set rows"
    and "(\<exists>s. data ''birthdate'' = Some (PStr s) \<and> float_of_str L s = None)
      \<or> (\<exists>s. data ''last_access'' = Some (PStr s) \<and> float_of_str L s = None)
      \<or> (\<exists>s. data ''importance_level'' = Some (PStr s) \<and> int_of_str L s = None)"
  shows "\<exists>err. load_rows L rows metadata = Inl err"
  using assms(1)
proof (induction rows arbitrary: metadata)
  case Nil
  then show ?case by simp
next
  case (Cons r rows)
  show ?case
  proof (cases "data = r")
    case True
    with load_rows_malformed_head [OF assms(2)] show ?thesis by blast
  next
    case False
    with Cons.prems have "data \<in> set rows" by simp
    then have "\<exists>err. load_rows L rows m = Inl err" for m by (rule Cons.IH)
    then show ?thesis
      by (auto split: sum.splits)
  qed
qed

lemma load_rows_entity:
  assumes "float_of_str L (str_of_float L (birthdate e)) = Some (birthdate e)"
    and "float_of_str L (str_of_float L (last_access e)) = Some (last_access e)"
    and "int_of_str L (str_of_int L (importance_level e)) = Some (importance_level e)"
  shows "load_rows L (row_dict (header_row L) (entity_row L e) # rest) metadata
           = load_rows L rest (metadata(path e \<mapsto> e))"
  using assms
  by (simp add: row_dict_entity getitem_def EntityData_init_def store_entity_def EntityData_eta)

lemma load_rows_entities:
  assumes "\<forall>e \<in> set es.
       float_of_str L (str_of_float L (birthdate e)) = Some (birthdate e)
     \<and> float_of_str L (str_of_float L (last_access e)) = Some (last_access e)
     \<and> int_of_str L (str_of_int L (importance_level e)) = Some (importance_level e)"
  shows "load_rows L (map (\<lambda>e. row_dict (header_row L) (entity_row L e)) es) metadata
           = Inr (metadata ++ map_of (rev (map (\<lambda>e. (path e, e)) es)))"
  using assms
proof (induction es arbitrary: metadata)
  case Nil
  then show ?case by simp
next
  case (Cons e es)
  have "load_rows L (map (\<lambda>e. row_dict (header_row L) (entity_row L e)) (e # es)) metadata
          = load_rows L (map (\<lambda>e. row_dict (header_row L) (entity_row L e)) es)
              (metadata(path e \<mapsto> e))"
    using Cons.prems by (simp add: load_rows_entity del: load_rows.simps)
  also have "\<dots> = Inr (metadata(path e \<mapsto> e) ++ map_of (rev (map (\<lambda>e. (path e, e)) es)))"
    using Cons.prems by (intro Cons.IH) simp
  also have "metadata(path e \<mapsto> e) ++ map_of (rev (map (\<lambda>e. (path e, e)) es))
          = metadata ++ map_of (rev (map (\<lambda>e. (path e, e)) (e # es)))"
    by (simp add: map_add_upd_left map_add_assoc)
  finally show ?case .
qed

section \<open>Theorems\<close>

text \<open>
  C1. The claim that the importance after \<^verbatim>\<open>extract_data\<close> and \<^verbatim>\<open>update_data\<close> is the
  previous importance or the previous importance plus 1 fails on the code: with a
  previous record of importance 3 and an unchanged \<open>last_access\<close>, the importance after
  the two calls is 0, which is neither 3 nor 4.
\<close>

theorem importance_reset:
  "importance_level (update_data (extract_data ''B'' \<lparr>st_birthtime = 0, st_atime = 100\<rparr>)
        \<lparr>store_path = ''./test.csv'',
         last_metadata = [''B'' \<mapsto> \<lparr>path = ''B'', birthdate = 0, last_access = 100, importance_level = 3\<rparr>]\<rparr>) = 0
   \<and> \<not> (importance_level (update_data (extract_data ''B'' \<lparr>st_birthtime = 0, st_atime = 100\<rparr>)
        \<lparr>store_path = ''./test.csv'',
         last_metadata = [''B'' \<mapsto> \<lparr>path = ''B'', birthdate = 0, last_access = 100, importance_level = 3\<rparr>]\<rparr>)
        \<in> {3, 3 + 1})"
  by (simp add: update_data_def extract_data_def)

text \<open>
  C2. Entity B of the scenario, on the code: the snapshot holds B with importance 3 and a
  \<open>last_access\<close> of 0, the stat reports the same \<open>last_access\<close>, and the clock reads 40
  days later. The record after \<^verbatim>\<open>update_data\<close> has importance 0, and the run sends B to
  the trash; it is not archived.
\<close>

theorem scenario_B_run:
  "browse_files example_lib example_platform (\<lambda>u. 3456000000000) 0 ''dl'' [] [''B'']
     ''./test.csv''
     [[''path'', ''birthdate'', ''last_access'', ''importance_level''],
      [joinpath example_platform ''dl'' ''B'', ''0.0'', ''0.0'', ''3'']]
   = ([Trash (joinpath example_platform ''dl'' ''B'')],
      [[''path'', ''birthdate'', ''last_access'', ''importance_level'']], Inr 2)
   \<and> importance_level
        (update_data (extract_data (joinpath example_platform ''dl'' ''B'') \<lparr>st_birthtime = 0, st_atime = 0\<rparr>)
          \<lparr>store_path = ''./test.csv'',
           last_metadata = [joinpath example_platform ''dl'' ''B'' \<mapsto>
             \<lparr>path = joinpath example_platform ''dl'' ''B'', birthdate = 0, last_access = 0,
              importance_level = 3\<rparr>]\<rparr>) = 0"
  by (simp add: browse_files_def Memory_init_def load_last_metadata_def row_dict_def
      getitem_def EntityData_init_def store_entity_def example_lib_def example_platform_def
      Memory_update_def header_row_def writerow_def entity_row_def browse_step_def
      archive_data_def delete_data_def Let_def update_data_def extract_data_def
      is_deprecated_def is_important_def fromtimestamp_def round_half_even_def
      timedelta_days_def TIME_LIMIT_IN_DAYS_def IMPORTANCE_THRESHOLD_def datetime_min_def
      datetime_max_def)

text \<open>
  C3. After a \<^verbatim>\<open>Memory.update\<close> that completes, the file is the header row followed by
  one row for every listed entity that is not deprecated at the clock reading taken for
  it, in the order of the list: a row is in the file exactly when it is the row of a
  listed entity not deprecated at its reading, so every row belongs to a listed entity
  and none to a deprecated one; when the clock reads \<open>now\<close> throughout the write, the rows
  are those of the listed entities not deprecated at \<open>now\<close>. The result does not depend on
  the previous content of the file nor on the loaded mapping.
\<close>

theorem Memory_update_snapshot:
  "Memory_update L P clk t db old entities = (Inr t', db') \<Longrightarrow>
     db' = header_row L # map (entity_row L) (written P clk t entities)
   \<and> (\<forall>r. r \<in> set (tl db') \<longleftrightarrow>
         (\<exists>i < length entities. r = entity_row L (entities ! i)
             \<and> is_deprecated P (clk (t + i)) (entities ! i) = Inr False))
   \<and> (\<forall>r \<in> set (tl db'). \<exists>e \<in> set entities. r = entity_row L e \<and> hd r = path e)
   \<and> ((\<forall>i < length entities. clk (t + i) = now) \<longrightarrow>
         set (tl db') = entity_row L ` {e \<in> set entities. is_deprecated P now e = Inr False})
   \<and> Memory_update L P clk t db2 old2 entities = (Inr t', db')"
proof (intro conjI allI impI ballI)
  assume upd: "Memory_update L P clk t db old entities = (Inr t', db')"
  then obtain rows where rows: "update_rows L P clk t entities = (Inr t', rows)"
    and hd: "db' = header_row L # rows"
    by (auto simp: Memory_update_def Let_def split: prod.splits)
  from update_rows_written [OF rows] hd
  show db': "db' = header_row L # map (entity_row L) (written P clk t entities)"
    by simp
  show "Memory_update L P clk t db2 old2 entities = (Inr t', db')"
    using rows hd by (simp add: Memory_update_def)
  have tl: "set (tl db') = entity_row L ` set (written P clk t entities)"
    by (simp add: db')
  show iff: "r \<in> set (tl db') \<longleftrightarrow>
         (\<exists>i < length entities. r = entity_row L (entities ! i)
             \<and> is_deprecated P (clk (t + i)) (entities ! i) = Inr False)" for r
    unfolding tl image_iff Bex_def written_nth by blast
  show "\<exists>e \<in> set entities. r = entity_row L e \<and> hd r = path e" if "r \<in> set (tl db')" for r
  proof -
    from that iff obtain i where "i < length entities" "r = entity_row L (entities ! i)"
      by blast
    then show ?thesis
      by (intro bexI [of _ "entities ! i"]) (simp_all add: entity_row_eq)
  qed
  assume now: "\<forall>i < length entities. clk (t + i) = now"
  have "e \<in> set (written P clk t entities)
          \<longleftrightarrow> e \<in> set entities \<and> is_deprecated P now e = Inr False" for e
  proof -
    have "e \<in> set (written P clk t entities) \<longleftrightarrow>
            (\<exists>i < length entities. e = entities ! i \<and> is_deprecated P now e = Inr False)"
      unfolding written_nth using now by auto
    also have "\<dots> \<longleftrightarrow> e \<in> set entities \<and> is_deprecated P now e = Inr False"
      by (auto simp: in_set_conv_nth)
    finally show ?thesis .
  qed
  then have "set (written P clk t entities)
               = {e \<in> set entities. is_deprecated P now e = Inr False}"
    by blast
  then show "set (tl db')
               = entity_row L ` {e \<in> set entities. is_deprecated P now e = Inr False}"
    using tl by simp
qed

theorem Memory_update_snapshot_witness:
  "Memory_update example_lib example_platform (\<lambda>u. 2592050000000) 0 \<lparr>store_path = ''./test.csv'', last_metadata = Map.empty\<rparr>
       [[''stale'']]
       [\<lparr>path = ''a'', birthdate = 0, last_access = 100, importance_level = 2\<rparr>,
        \<lparr>path = ''b'', birthdate = 0, last_access = 0, importance_level = 0\<rparr>]
     = (Inr 2, [[''path'', ''birthdate'', ''last_access'', ''importance_level''],
            [''a'', ''0.0'', ''100.0'', ''2'']])
   \<and> set (tl [[''path'', ''birthdate'', ''last_access'', ''importance_level''],
            [''a'', ''0.0'', ''100.0'', ''2'']])
     = entity_row example_lib ` {e \<in> set [\<lparr>path = ''a'', birthdate = 0, last_access = 100, importance_level = 2\<rparr>,
        \<lparr>path = ''b'', birthdate = 0, last_access = 0, importance_level = 0\<rparr>].
          is_deprecated example_platform 2592050000000 e = Inr False}
   \<and> Memory_update example_lib example_platform (\<lambda>u. 2592050000000) 0 \<lparr>store_path = ''./test.csv'', last_metadata = Map.empty\<rparr>
       []
       [\<lparr>path = ''a'', birthdate = 0, last_access = 100, importance_level = 2\<rparr>,
        \<lparr>path = ''b'', birthdate = 0, last_access = 0, importance_level = 0\<rparr>]
     = (Inr 2, [[''path'', ''birthdate'', ''last_access'', ''importance_level''],
            [''a'', ''0.0'', ''100.0'', ''2'']])"
proof -
  have h: "Memory_update example_lib example_platform (\<lambda>u. 2592050000000) 0 \<lparr>store_path = ''./test.csv'', last_metadata = Map.empty\<rparr>
       [[''stale'']]
       [\<lparr>path = ''a'', birthdate = 0, last_access = 100, importance_level = 2\<rparr>,
        \<lparr>path = ''b'', birthdate = 0, last_access = 0, importance_level = 0\<rparr>]
     = (Inr 2, [[''path'', ''birthdate'', ''last_access'', ''importance_level''],
            [''a'', ''0.0'', ''100.0'', ''2'']])"
    by (simp add: Memory_update_def header_row_def writerow_def entity_row_def example_lib_def
        example_platform_def is_deprecated_def fromtimestamp_def round_half_even_def
        timedelta_days_def TIME_LIMIT_IN_DAYS_def datetime_min_def datetime_max_def Let_def)
  note s = Memory_update_snapshot [OF h, of 2592050000000 "\<lparr>store_path = ''./test.csv'', last_metadata = Map.empty\<rparr>" "[]"]
  from s have a: "(\<forall>i < length [\<lparr>path = ''a'', birthdate = 0, last_access = 100, importance_level = 2\<rparr>,
        \<lparr>path = ''b'', birthdate = 0, last_access = 0, importance_level = 0\<rparr>].
          (\<lambda>u. 2592050000000) (0 + i) = (2592050000000 :: datetime)) \<longrightarrow>
      set (tl [[''path'', ''birthdate'', ''last_access'', ''importance_level''],
            [''a'', ''0.0'', ''100.0'', ''2'']])
     = entity_row example_lib ` {e \<in> set [\<lparr>path = ''a'', birthdate = 0, last_access = 100, importance_level = 2\<rparr>,
        \<lparr>path = ''b'', birthdate = 0, last_access = 0, importance_level = 0\<rparr>].
          is_deprecated example_platform 2592050000000 e = Inr False}"
    by blast
  from s have b: "Memory_update example_lib example_platform (\<lambda>u. 2592050000000) 0 \<lparr>store_path = ''./test.csv'', last_metadata = Map.empty\<rparr>
       []
       [\<lparr>path = ''a'', birthdate = 0, last_access = 100, importance_level = 2\<rparr>,
        \<lparr>path = ''b'', birthdate = 0, last_access = 0, importance_level = 0\<rparr>]
     = (Inr 2, [[''path'', ''birthdate'', ''last_access'', ''importance_level''],
            [''a'', ''0.0'', ''100.0'', ''2'']])"
    by blast
  from a have a': "set (tl [[''path'', ''birthdate'', ''last_access'', ''importance_level''],
            [''a'', ''0.0'', ''100.0'', ''2'']])
     = entity_row example_lib ` {e \<in> set [\<lparr>path = ''a'', birthdate = 0, last_access = 100, importance_level = 2\<rparr>,
        \<lparr>path = ''b'', birthdate = 0, last_access = 0, importance_level = 0\<rparr>].
          is_deprecated example_platform 2592050000000 e = Inr False}"
    by (simp only: simp_thms)
  from h a' b show ?thesis by (intro conjI)
qed

text \<open>
  C4. \<^verbatim>\<open>update_data\<close> is the three-case accrual rule: with no previous record for the
  path the fresh record is returned as it is, and the record built by \<^verbatim>\<open>extract_data\<close>
  keeps importance 0; with a previous record and a strictly greater fresh
  \<open>last_access\<close> the importance becomes the previous importance plus 1; with a previous
  record and a fresh \<open>last_access\<close> less than or equal to the previous one the fresh
  record is returned unchanged.
\<close>

theorem update_data_three_cases:
  "(last_metadata db (path data) = None \<longrightarrow> update_data data db = data)
   \<and> (last_metadata db p = None \<longrightarrow>
        importance_level (update_data (extract_data p st) db) = 0)
   \<and> (\<forall>old. last_metadata db (path data) = Some old \<and> last_access data > last_access old \<longrightarrow>
        update_data data db = data\<lparr>importance_level := importance_level old + 1\<rparr>)
   \<and> (\<forall>old. last_metadata db (path data) = Some old \<and> last_access data \<le> last_access old \<longrightarrow>
        update_data data db = data)"
  by (auto simp: update_data_def extract_data_def)

theorem update_data_three_cases_witness:
  "last_metadata \<lparr>store_path = ''./test.csv'',
       last_metadata = [''a'' \<mapsto> \<lparr>path = ''a'', birthdate = 0, last_access = 10, importance_level = 2\<rparr>]\<rparr> ''b'' = None
   \<and> update_data \<lparr>path = ''b'', birthdate = 5, last_access = 20, importance_level = 0\<rparr>
        \<lparr>store_path = ''./test.csv'',
         last_metadata = [''a'' \<mapsto> \<lparr>path = ''a'', birthdate = 0, last_access = 10, importance_level = 2\<rparr>]\<rparr>
       = \<lparr>path = ''b'', birthdate = 5, last_access = 20, importance_level = 0\<rparr>
   \<and> importance_level (update_data (extract_data ''b'' \<lparr>st_birthtime = 5, st_atime = 20\<rparr>)
        \<lparr>store_path = ''./test.csv'',
         last_metadata = [''a'' \<mapsto> \<lparr>path = ''a'', birthdate = 0, last_access = 10, importance_level = 2\<rparr>]\<rparr>) = 0
   \<and> update_data \<lparr>path = ''a'', birthdate = 0, last_access = 11, importance_level = 0\<rparr>
        \<lparr>store_path = ''./test.csv'',
         last_metadata = [''a'' \<mapsto> \<lparr>path = ''a'', birthdate = 0, last_access = 10, importance_level = 2\<rparr>]\<rparr>
       = \<lparr>path = ''a'', birthdate = 0, last_access = 11, importance_level = 3\<rparr>
   \<and> update_data \<lparr>path = ''a'', birthdate = 0, last_access = 10, importance_level = 0\<rparr>
        \<lparr>store_path = ''./test.csv'',
         last_metadata = [''a'' \<mapsto> \<lparr>path = ''a'', birthdate = 0, last_access = 10, importance_level = 2\<rparr>]\<rparr>
       = \<lparr>path = ''a'', birthdate = 0, last_access = 10, importance_level = 0\<rparr>"
  using update_data_three_cases [of
      "\<lparr>store_path = ''./test.csv'',
         last_metadata = [''a'' \<mapsto> \<lparr>path = ''a'', birthdate = 0, last_access = 10, importance_level = 2\<rparr>]\<rparr>"
      "\<lparr>path = ''b'', birthdate = 5, last_access = 20, importance_level = 0\<rparr>"
      "''b''" "\<lparr>st_birthtime = 5, st_atime = 20\<rparr>"]
    update_data_three_cases [of
      "\<lparr>store_path = ''./test.csv'',
         last_metadata = [''a'' \<mapsto> \<lparr>path = ''a'', birthdate = 0, last_access = 10, importance_level = 2\<rparr>]\<rparr>"
      "\<lparr>path = ''a'', birthdate = 0, last_access = 11, importance_level = 0\<rparr>"]
    update_data_three_cases [of
      "\<lparr>store_path = ''./test.csv'',
         last_metadata = [''a'' \<mapsto> \<lparr>path = ''a'', birthdate = 0, last_access = 10, importance_level = 2\<rparr>]\<rparr>"
      "\<lparr>path = ''a'', birthdate = 0, last_access = 10, importance_level = 0\<rparr>"]
  by simp

text \<open>
  C5. A run on the code in which a deprecated and important entity gets neither action.
  The snapshot holds \<open>a\<close> with importance 2 and a \<open>last_access\<close> of 0; the stat of \<open>a\<close> and
  of \<open>b\<close> reports a \<open>last_access\<close> of 100 seconds, and the clock reads 31 days later. The
  run sends \<open>b\<close>, deprecated and not important, to the trash. For \<open>a\<close>, deprecated and of
  importance 3, \<^verbatim>\<open>archive_data\<close> calls \<^verbatim>\<open>rename\<close> into a dated directory that does not
  exist: the run ends with \<^verbatim>\<open>FileNotFoundError\<close>, \<open>a\<close> is neither archived nor sent to the
  trash, and the snapshot is not rewritten.
\<close>

theorem stale_important_run:
  "browse_files example_lib
     (example_platform\<lparr>stat := \<lambda>p. Inr \<lparr>st_birthtime = 0, st_atime = 100\<rparr>\<rparr>)
     (\<lambda>u. 2678500000000) 0 ''dl'' [] [''b'', ''a''] ''./test.csv''
     [[''path'', ''birthdate'', ''last_access'', ''importance_level''],
      [joinpath example_platform ''dl'' ''a'', ''0.0'', ''0.0'', ''2'']]
   = ([Trash (joinpath example_platform ''dl'' ''b'')],
      [[''path'', ''birthdate'', ''last_access'', ''importance_level''],
      [joinpath example_platform ''dl'' ''a'', ''0.0'', ''0.0'', ''2'']],
      Inl FileNotFoundError)"
  by (simp add: browse_files_def Memory_init_def load_last_metadata_def row_dict_def
      getitem_def EntityData_init_def store_entity_def example_lib_def example_platform_def
      Memory_update_def header_row_def writerow_def entity_row_def browse_step_def
      archive_data_def delete_data_def Let_def update_data_def extract_data_def
      is_deprecated_def is_important_def fromtimestamp_def round_half_even_def
      timedelta_days_def TIME_LIMIT_IN_DAYS_def IMPORTANCE_THRESHOLD_def datetime_min_def
      datetime_max_def)

text \<open>
  C6 (as stated). The classification is not "the current time is strictly greater than
  \<open>last_access\<close> plus 30 days" on the time line. In UTC, with a \<open>last_access\<close> of
  99.9999996 seconds and the clock reading 2592100 seconds, the current time is greater
  than \<open>last_access\<close> plus 30 days, but \<^verbatim>\<open>fromtimestamp\<close> rounds the last access to 100
  seconds and the record is not deprecated. Where local time is one hour ahead from the
  second 1000000 on, a record accessed at second 0 is deprecated at the reading taken
  exactly 30 days later, since that reading is 30 days and one hour later on the wall
  clock.
\<close>

theorem is_deprecated_counterexample:
  "is_deprecated example_platform 2592100000000
     \<lparr>path = ''a'', birthdate = 0, last_access = 999999996 / 10000000, importance_level = 0\<rparr> = Inr False
   \<and> (2592100 :: rat) > 999999996 / 10000000 + 30 * 86400
   \<and> is_deprecated
       (example_platform\<lparr>utcoffset := \<lambda>s. if s < 1000000 then Some 0 else Some 3600\<rparr>)
       ((30 * 86400 + 3600) * 1000000)
       \<lparr>path = ''a'', birthdate = 0, last_access = 0, importance_level = 0\<rparr> = Inr True
   \<and> \<not> ((30 * 86400 :: rat) > 0 + 30 * 86400)"
proof -
  have a: "is_deprecated example_platform 2592100000000
     \<lparr>path = ''a'', birthdate = 0, last_access = 999999996 / 10000000, importance_level = 0\<rparr> = Inr False"
    by (simp add: is_deprecated_def fromtimestamp_example timedelta_days_def
        TIME_LIMIT_IN_DAYS_def datetime_max_def)
  have b: "is_deprecated
       (example_platform\<lparr>utcoffset := \<lambda>s. if s < 1000000 then Some 0 else Some 3600\<rparr>)
       ((30 * 86400 + 3600) * 1000000)
       \<lparr>path = ''a'', birthdate = 0, last_access = 0, importance_level = 0\<rparr> = Inr True"
    by (simp add: is_deprecated_def fromtimestamp_def round_half_even_def
        timedelta_days_def TIME_LIMIT_IN_DAYS_def datetime_min_def datetime_max_def
        example_platform_def Let_def)
  from a b show ?thesis by simp
qed

text \<open>
  C6 (amended). Where \<^verbatim>\<open>datetime.fromtimestamp\<close> gives the datetime \<open>d\<close> for \<open>last_access\<close>
  (the last access rounded to the microsecond, as local wall-clock time) and \<open>d\<close> plus 30
  days is a datetime, the record is deprecated at a reading of \<^verbatim>\<open>datetime.now()\<close> exactly
  when the reading is strictly greater than \<open>d\<close> plus 30 days: it is not deprecated at the
  reading \<open>d\<close> plus 30 days, and the answer depends on the reading at the time of the
  query, the same record being not deprecated at one reading and deprecated at a later
  one. When \<open>last_access\<close> is a whole number \<open>k\<close> of microseconds and the reading is the
  instant \<open>n\<close> under the same offset from UTC, the record is deprecated exactly when \<open>n\<close>
  is strictly greater than \<open>k\<close> plus 30 days.
\<close>

theorem is_deprecated_iff:
  assumes "fromtimestamp P (last_access e) = Inr d"
    and "d + timedelta_days TIME_LIMIT_IN_DAYS \<le> datetime_max"
  shows "is_deprecated P now e = Inr (now > d + 30 * 86400000000)
    \<and> is_deprecated P (d + 30 * 86400000000) e = Inr False
    \<and> is_deprecated P d e = Inr False
    \<and> is_deprecated P (d + 30 * 86400000000 + 1) e = Inr True
    \<and> (\<forall>k off n. last_access e = of_int k / 1000000 \<and> utcoffset P (k div 1000000) = Some off \<longrightarrow>
          d = k + off * 1000000
          \<and> is_deprecated P (n + off * 1000000) e = Inr (n > k + 30 * 86400000000))"
proof -
  have lim: "timedelta_days TIME_LIMIT_IN_DAYS = 30 * 86400000000"
    by (simp add: timedelta_days_def TIME_LIMIT_IN_DAYS_def)
  have q: "is_deprecated P x e = Inr (x > d + 30 * 86400000000)" for x
    using assms by (simp add: is_deprecated_def lim Let_def)
  have 1: "is_deprecated P now e = Inr (now > d + 30 * 86400000000)" by (rule q)
  have 2: "is_deprecated P (d + 30 * 86400000000) e = Inr False" by (simp add: q)
  have 3: "is_deprecated P d e = Inr False" by (simp add: q)
  have 4: "is_deprecated P (d + 30 * 86400000000 + 1) e = Inr True" by (simp add: q)
  have 5: "d = k + off * 1000000
      \<and> is_deprecated P (n + off * 1000000) e = Inr (n > k + 30 * 86400000000)"
    if "last_access e = of_int k / 1000000" "utcoffset P (k div 1000000) = Some off" for k off n
  proof -
    have dk: "d = k + off * 1000000"
      using that assms(1) by (rule fromtimestamp_microseconds)
    have "is_deprecated P (n + off * 1000000) e
            = Inr (n + off * 1000000 > d + 30 * 86400000000)" by (rule q)
    also have "(n + off * 1000000 > d + 30 * 86400000000) = (n > k + 30 * 86400000000)"
      unfolding dk by arith
    finally show ?thesis using dk by blast
  qed
  from 5 have 6: "\<forall>k off n. last_access e = of_int k / 1000000
        \<and> utcoffset P (k div 1000000) = Some off \<longrightarrow>
          d = k + off * 1000000
          \<and> is_deprecated P (n + off * 1000000) e = Inr (n > k + 30 * 86400000000)"
    by blast
  from 1 2 3 4 6 show ?thesis by (intro conjI)
qed

theorem is_deprecated_iff_witness:
  "fromtimestamp example_platform
       (last_access \<lparr>path = ''a'', birthdate = 0, last_access = 100, importance_level = 0\<rparr>)
     = Inr 100000000
   \<and> 100000000 + timedelta_days TIME_LIMIT_IN_DAYS \<le> datetime_max
   \<and> is_deprecated example_platform 2592100000000
       \<lparr>path = ''a'', birthdate = 0, last_access = 100, importance_level = 0\<rparr> = Inr False
   \<and> is_deprecated example_platform 2592100000001
       \<lparr>path = ''a'', birthdate = 0, last_access = 100, importance_level = 0\<rparr> = Inr True"
proof -
  have h: "fromtimestamp example_platform
       (last_access \<lparr>path = ''a'', birthdate = 0, last_access = 100, importance_level = 0\<rparr>)
     = Inr 100000000"
    by (simp add: fromtimestamp_def round_half_even_def datetime_min_def datetime_max_def
        example_platform_def Let_def)
  have b: "100000000 + timedelta_days TIME_LIMIT_IN_DAYS \<le> datetime_max"
    by (simp add: timedelta_days_def TIME_LIMIT_IN_DAYS_def datetime_max_def)
  note s = is_deprecated_iff [OF h b, THEN conjunct2]
  from s have c: "is_deprecated example_platform (100000000 + 30 * 86400000000)
       \<lparr>path = ''a'', birthdate = 0, last_access = 100, importance_level = 0\<rparr> = Inr False"
    by (rule conjunct1)
  from s have d: "is_deprecated example_platform (100000000 + 30 * 86400000000 + 1)
       \<lparr>path = ''a'', birthdate = 0, last_access = 100, importance_level = 0\<rparr> = Inr True"
    by (rule conjunct2 [THEN conjunct2, THEN conjunct1])
  have n1: "(100000000 + 30 * 86400000000 :: int) = 2592100000000" by simp
  have n2: "(100000000 + 30 * 86400000000 + 1 :: int) = 2592100000001" by simp
  from c have c': "is_deprecated example_platform 2592100000000
       \<lparr>path = ''a'', birthdate = 0, last_access = 100, importance_level = 0\<rparr> = Inr False"
    unfolding n1 .
  from d have d': "is_deprecated example_platform 2592100000001
       \<lparr>path = ''a'', birthdate = 0, last_access = 100, importance_level = 0\<rparr> = Inr True"
    unfolding n2 .
  from h b c' d' show ?thesis by (intro conjI)
qed

text \<open>
  C7. If the snapshot has a row whose \<open>birthdate\<close> or \<open>last_access\<close> cell is a string that
  \<^verbatim>\<open>float\<close> rejects, or whose \<open>importance_level\<close> cell is a string that \<^verbatim>\<open>int\<close> rejects,
  then \<^verbatim>\<open>load_last_metadata\<close> raises an error, and so does the construction of the
  \<^verbatim>\<open>Memory\<close>: the row is not skipped and no mapping is returned.
\<close>

theorem load_malformed_raises:
  assumes "data \<in> set (DictReader db)"
    and "(\<exists>s. data ''birthdate'' = Some (PStr s) \<and> float_of_str L s = None)
      \<or> (\<exists>s. data ''last_access'' = Some (PStr s) \<and> float_of_str L s = None)
      \<or> (\<exists>s. data ''importance_level'' = Some (PStr s) \<and> int_of_str L s = None)"
  shows "\<exists>err. load_last_metadata L db = Inl err \<and> Memory_init L p db = Inl err"
proof -
  from load_rows_malformed [OF assms]
  obtain err where "load_last_metadata L db = Inl err"
    unfolding load_last_metadata_def by blast
  then show ?thesis by (simp add: Memory_init_def)
qed

theorem load_malformed_raises_witness:
  "row_dict [''path'', ''birthdate'', ''last_access'', ''importance_level'']
       [''b'', ''abc'', ''0.0'', ''0'']
     \<in> set (DictReader [[''path'', ''birthdate'', ''last_access'', ''importance_level''],
      [''a'', ''0.0'', ''100.0'', ''2''], [''b'', ''abc'', ''0.0'', ''0'']])
   \<and> row_dict [''path'', ''birthdate'', ''last_access'', ''importance_level'']
       [''b'', ''abc'', ''0.0'', ''0''] ''birthdate'' = Some (PStr ''abc'')
   \<and> float_of_str example_lib ''abc'' = None
   \<and> load_last_metadata example_lib [[''path'', ''birthdate'', ''last_access'', ''importance_level''],
      [''a'', ''0.0'', ''100.0'', ''2''], [''b'', ''abc'', ''0.0'', ''0'']] = Inl ValueError
   \<and> Memory_init example_lib ''./test.csv'' [[''path'', ''birthdate'', ''last_access'', ''importance_level''],
      [''a'', ''0.0'', ''100.0'', ''2''], [''b'', ''abc'', ''0.0'', ''0'']] = Inl ValueError"
proof -
  have mem: "row_dict [''path'', ''birthdate'', ''last_access'', ''importance_level'']
       [''b'', ''abc'', ''0.0'', ''0'']
     \<in> set (DictReader [[''path'', ''birthdate'', ''last_access'', ''importance_level''],
      [''a'', ''0.0'', ''100.0'', ''2''], [''b'', ''abc'', ''0.0'', ''0'']])"
    by simp
  have cell: "row_dict [''path'', ''birthdate'', ''last_access'', ''importance_level'']
       [''b'', ''abc'', ''0.0'', ''0''] ''birthdate'' = Some (PStr ''abc'')"
    by (simp add: row_dict_def)
  have bad: "float_of_str example_lib ''abc'' = None"
    by (simp add: example_lib_def)
  have val: "load_last_metadata example_lib [[''path'', ''birthdate'', ''last_access'', ''importance_level''],
      [''a'', ''0.0'', ''100.0'', ''2''], [''b'', ''abc'', ''0.0'', ''0'']] = Inl ValueError"
    by (simp add: load_last_metadata_def row_dict_def getitem_def EntityData_init_def
        store_entity_def example_lib_def)
  from cell bad have
    "(\<exists>s. row_dict [''path'', ''birthdate'', ''last_access'', ''importance_level'']
            [''b'', ''abc'', ''0.0'', ''0''] ''birthdate'' = Some (PStr s)
          \<and> float_of_str example_lib s = None)
     \<or> (\<exists>s. row_dict [''path'', ''birthdate'', ''last_access'', ''importance_level'']
            [''b'', ''abc'', ''0.0'', ''0''] ''last_access'' = Some (PStr s)
          \<and> float_of_str example_lib s = None)
     \<or> (\<exists>s. row_dict [''path'', ''birthdate'', ''last_access'', ''importance_level'']
            [''b'', ''abc'', ''0.0'', ''0''] ''importance_level'' = Some (PStr s)
          \<and> int_of_str example_lib s = None)"
    by blast
  from load_malformed_raises [OF mem this, of "''./test.csv''"] val mem cell bad
  show ?thesis by auto
qed

text \<open>
  C8. Two runs on the code with two deprecated entities of importance 3, the clock
  advancing by one microsecond per reading. Where every dated directory exists, the two
  renames of the one run go to two different dated directories, each named by the reading
  taken in its own call of \<^verbatim>\<open>archive_data\<close>. Where no dated directory exists, as the
  program creates none, the first \<^verbatim>\<open>rename\<close> raises \<^verbatim>\<open>FileNotFoundError\<close> and nothing is
  archived.
\<close>

theorem archive_run:
  "browse_files example_lib
     (example_platform\<lparr>stat := \<lambda>p. Inr \<lparr>st_birthtime = 0, st_atime = 100\<rparr>,
                        dated_dir_exists := \<lambda>d. True\<rparr>)
     (\<lambda>u. 2678500000000 + int u) 0 ''dl'' [] [''a'', ''b''] ''./test.csv''
     [[''path'', ''birthdate'', ''last_access'', ''importance_level''],
      [joinpath example_platform ''dl'' ''a'', ''0.0'', ''0.0'', ''2''],
      [joinpath example_platform ''dl'' ''b'', ''0.0'', ''0.0'', ''2'']]
   = ([Rename (joinpath example_platform ''dl'' ''a'')
         \<lparr>dst_root = ARCHIVE_PATH, dst_stamp = 2678500000001, dst_name = ''a''\<rparr>,
       Rename (joinpath example_platform ''dl'' ''b'')
         \<lparr>dst_root = ARCHIVE_PATH, dst_stamp = 2678500000003, dst_name = ''b''\<rparr>],
      [[''path'', ''birthdate'', ''last_access'', ''importance_level'']], Inr 6)
   \<and> (2678500000001 :: datetime) \<noteq> 2678500000003
   \<and> browse_files example_lib
     (example_platform\<lparr>stat := \<lambda>p. Inr \<lparr>st_birthtime = 0, st_atime = 100\<rparr>\<rparr>)
     (\<lambda>u. 2678500000000 + int u) 0 ''dl'' [] [''a'', ''b''] ''./test.csv''
     [[''path'', ''birthdate'', ''last_access'', ''importance_level''],
      [joinpath example_platform ''dl'' ''a'', ''0.0'', ''0.0'', ''2''],
      [joinpath example_platform ''dl'' ''b'', ''0.0'', ''0.0'', ''2'']]
   = ([],
      [[''path'', ''birthdate'', ''last_access'', ''importance_level''],
      [joinpath example_platform ''dl'' ''a'', ''0.0'', ''0.0'', ''2''],
      [joinpath example_platform ''dl'' ''b'', ''0.0'', ''0.0'', ''2'']],
      Inl FileNotFoundError)"
  by (simp add: browse_files_def Memory_init_def load_last_metadata_def row_dict_def
      getitem_def EntityData_init_def store_entity_def example_lib_def example_platform_def
      Memory_update_def header_row_def writerow_def entity_row_def browse_step_def
      archive_data_def delete_data_def Let_def update_data_def extract_data_def
      is_deprecated_def is_important_def fromtimestamp_def round_half_even_def
      timedelta_days_def TIME_LIMIT_IN_DAYS_def IMPORTANCE_THRESHOLD_def datetime_min_def
      datetime_max_def)

text \<open>
  C9. On the object store, \<^verbatim>\<open>update_data\<close> leaves the dictionary \<open>db.last_metadata\<close> as it
  is and writes no object other than \<open>data\<close>; of \<open>data\<close> it keeps \<open>path\<close>, \<open>birthdate\<close> and
  \<open>last_access\<close>, and the object after the call is the record that \<open>update_data\<close>
  computes from the values. Every record stored in the dictionary is left as it is when
  \<open>data\<close> is a fresh object, not stored in the dictionary, and also when the dictionary
  stores every record under its own path, as \<^verbatim>\<open>load_last_metadata\<close> builds it.
\<close>

theorem update_data_store_frame:
  "update_data_store data db h = (h', db') \<Longrightarrow>
     db' = db
     \<and> (\<forall>r. r \<noteq> data \<longrightarrow> h' r = h r)
     \<and> path (h' data) = path (h data)
     \<and> birthdate (h' data) = birthdate (h data)
     \<and> last_access (h' data) = last_access (h data)
     \<and> h' data = update_data (h data) \<lparr>store_path = sp, last_metadata = (\<lambda>k. map_option h (db k))\<rparr>
     \<and> ((\<forall>k. db k \<noteq> Some data) \<or> (\<forall>k r. db k = Some r \<longrightarrow> path (h r) = k) \<longrightarrow>
          (\<forall>k r. db k = Some r \<longrightarrow> h' r = h r))"
  by (auto simp: update_data_store_def update_data_def Let_def split: option.splits if_splits)

theorem update_data_store_frame_witness:
  "update_data_store 0 [''a'' \<mapsto> 1]
       (\<lambda>r. if r = 0 then \<lparr>path = ''a'', birthdate = 5, last_access = 20, importance_level = 0\<rparr>
           else \<lparr>path = ''a'', birthdate = 0, last_access = 10, importance_level = 2\<rparr>)
     = ((\<lambda>r. if r = 0 then \<lparr>path = ''a'', birthdate = 5, last_access = 20, importance_level = 3\<rparr>
           else \<lparr>path = ''a'', birthdate = 0, last_access = 10, importance_level = 2\<rparr>),
        [''a'' \<mapsto> 1])
   \<and> (\<lambda>r. if r = 0 then \<lparr>path = ''a'', birthdate = 5, last_access = 20, importance_level = 3\<rparr>
           else \<lparr>path = ''a'', birthdate = 0, last_access = 10, importance_level = 2\<rparr>) (1::nat)
     = (\<lambda>r. if r = 0 then \<lparr>path = ''a'', birthdate = 5, last_access = 20, importance_level = 0\<rparr>
           else \<lparr>path = ''a'', birthdate = 0, last_access = 10, importance_level = 2\<rparr>) (1::nat)"
proof -
  have h: "update_data_store 0 [''a'' \<mapsto> 1]
       (\<lambda>r. if r = 0 then \<lparr>path = ''a'', birthdate = 5, last_access = 20, importance_level = 0\<rparr>
           else \<lparr>path = ''a'', birthdate = 0, last_access = 10, importance_level = 2\<rparr>)
     = ((\<lambda>r. if r = 0 then \<lparr>path = ''a'', birthdate = 5, last_access = 20, importance_level = 3\<rparr>
           else \<lparr>path = ''a'', birthdate = 0, last_access = 10, importance_level = 2\<rparr>),
        [''a'' \<mapsto> 1])"
    by (auto simp: update_data_store_def Let_def fun_eq_iff)
  note fr = update_data_store_frame [OF h, of "''./test.csv''", THEN conjunct2, THEN conjunct1]
  have one: "(1::nat) \<noteq> 0" by simp
  from h fr [rule_format, OF one] show ?thesis by (intro conjI)
qed

text \<open>
  C10. Writing a list of entities with a \<^verbatim>\<open>Memory.update\<close> that completes and loading
  the file with \<^verbatim>\<open>load_last_metadata\<close>, where \<^verbatim>\<open>float\<close> and \<^verbatim>\<open>int\<close> read back what
  \<^verbatim>\<open>str\<close> wrote for the numbers of the written entities, succeeds and returns the mapping
  of the written (not deprecated) entities by path, the last entity of a path winning,
  each record equal to the one written. The first row of the file is the header in every
  case, and when no entity is written the load returns the empty mapping.
\<close>

theorem update_then_load:
  assumes "Memory_update L P clk t db old entities = (Inr t', db')"
    and "\<forall>e \<in> set (written P clk t entities).
       float_of_str L (str_of_float L (birthdate e)) = Some (birthdate e)
     \<and> float_of_str L (str_of_float L (last_access e)) = Some (last_access e)
     \<and> int_of_str L (str_of_int L (importance_level e)) = Some (importance_level e)"
  shows "load_last_metadata L db'
           = Inr (map_of (rev (map (\<lambda>e. (path e, e)) (written P clk t entities))))
    \<and> hd db' = [''path'', ''birthdate'', ''last_access'', ''importance_level'']
    \<and> (written P clk t entities = [] \<longrightarrow> load_last_metadata L db' = Inr Map.empty)"
proof -
  from assms(1) obtain rows where rows: "update_rows L P clk t entities = (Inr t', rows)"
    and hd: "db' = header_row L # rows"
    by (auto simp: Memory_update_def Let_def split: prod.splits)
  from update_rows_written [OF rows] hd
  have db': "db' = header_row L # map (entity_row L) (written P clk t entities)"
    by simp
  have ne: "filter (\<lambda>row. row \<noteq> []) (map (entity_row L) es) = map (entity_row L) es" for es
    by (induction es) (simp_all add: entity_row_eq)
  have "DictReader db'
          = map (\<lambda>e. row_dict (header_row L) (entity_row L e)) (written P clk t entities)"
    by (simp add: db' ne)
  then have 1: "load_last_metadata L db'
           = Inr (map_of (rev (map (\<lambda>e. (path e, e)) (written P clk t entities))))"
    using load_rows_entities [OF assms(2), of Map.empty]
    by (simp add: load_last_metadata_def)
  have 2: "hd db' = [''path'', ''birthdate'', ''last_access'', ''importance_level'']"
    by (simp add: db' header_row_eq)
  from 1 2 show ?thesis by simp
qed

theorem update_then_load_witness:
  "Memory_update example_lib example_platform (\<lambda>u. 2592050000000) 0 \<lparr>store_path = ''./test.csv'', last_metadata = Map.empty\<rparr>
       []
       [\<lparr>path = ''a'', birthdate = 0, last_access = 100, importance_level = 2\<rparr>,
        \<lparr>path = ''b'', birthdate = 0, last_access = 0, importance_level = 0\<rparr>]
     = (Inr 2, [[''path'', ''birthdate'', ''last_access'', ''importance_level''],
            [''a'', ''0.0'', ''100.0'', ''2'']])
   \<and> written example_platform (\<lambda>u. 2592050000000) 0
       [\<lparr>path = ''a'', birthdate = 0, last_access = 100, importance_level = 2\<rparr>,
        \<lparr>path = ''b'', birthdate = 0, last_access = 0, importance_level = 0\<rparr>]
     = [\<lparr>path = ''a'', birthdate = 0, last_access = 100, importance_level = 2\<rparr>]
   \<and> load_last_metadata example_lib
       [[''path'', ''birthdate'', ''last_access'', ''importance_level''],
            [''a'', ''0.0'', ''100.0'', ''2'']]
     = Inr [''a'' \<mapsto> \<lparr>path = ''a'', birthdate = 0, last_access = 100, importance_level = 2\<rparr>]"
proof -
  have h: "Memory_update example_lib example_platform (\<lambda>u. 2592050000000) 0 \<lparr>store_path = ''./test.csv'', last_metadata = Map.empty\<rparr>
       []
       [\<lparr>path = ''a'', birthdate = 0, last_access = 100, importance_level = 2\<rparr>,
        \<lparr>path = ''b'', birthdate = 0, last_access = 0, importance_level = 0\<rparr>]
     = (Inr 2, [[''path'', ''birthdate'', ''last_access'', ''importance_level''],
            [''a'', ''0.0'', ''100.0'', ''2'']])"
    by (simp add: Memory_update_def header_row_def writerow_def entity_row_def example_lib_def
        example_platform_def is_deprecated_def fromtimestamp_def round_half_even_def
        timedelta_days_def TIME_LIMIT_IN_DAYS_def datetime_min_def datetime_max_def Let_def)
  have w: "written example_platform (\<lambda>u. 2592050000000) 0
       [\<lparr>path = ''a'', birthdate = 0, last_access = 100, importance_level = 2\<rparr>,
        \<lparr>path = ''b'', birthdate = 0, last_access = 0, importance_level = 0\<rparr>]
     = [\<lparr>path = ''a'', birthdate = 0, last_access = 100, importance_level = 2\<rparr>]"
    by (simp add: example_platform_def is_deprecated_def fromtimestamp_def round_half_even_def
        timedelta_days_def TIME_LIMIT_IN_DAYS_def datetime_min_def datetime_max_def Let_def)
  have rt: "\<forall>e \<in> set (written example_platform (\<lambda>u. 2592050000000) 0
       [\<lparr>path = ''a'', birthdate = 0, last_access = 100, importance_level = 2\<rparr>,
        \<lparr>path = ''b'', birthdate = 0, last_access = 0, importance_level = 0\<rparr>]).
       float_of_str example_lib (str_of_float example_lib (birthdate e)) = Some (birthdate e)
     \<and> float_of_str example_lib (str_of_float example_lib (last_access e)) = Some (last_access e)
     \<and> int_of_str example_lib (str_of_int example_lib (importance_level e))
         = Some (importance_level e)"
    unfolding w by (simp add: example_lib_def)
  note l = update_then_load [OF h rt, THEN conjunct1]
  have m: "map_of (rev (map (\<lambda>e. (path e, e))
              [\<lparr>path = ''a'', birthdate = 0, last_access = 100, importance_level = 2\<rparr>]))
           = [''a'' \<mapsto> \<lparr>path = ''a'', birthdate = 0, last_access = 100, importance_level = 2\<rparr>]"
    by simp
  from l have "load_last_metadata example_lib
       [[''path'', ''birthdate'', ''last_access'', ''importance_level''],
            [''a'', ''0.0'', ''100.0'', ''2'']]
     = Inr [''a'' \<mapsto> \<lparr>path = ''a'', birthdate = 0, last_access = 100, importance_level = 2\<rparr>]"
    unfolding w m .
  with h w show ?thesis by (intro conjI)
qed

end
